theory Spec2Isabelle
  imports Main
begin

section \<open>The provisioning command line tool \<^verbatim>\<open>aws_cli_tool.py\<close>\<close>

text \<open>
  The tool parses one command, hands the parsed namespace to one of three handlers
  (\<^verbatim>\<open>handle_ec2_commands\<close>, \<^verbatim>\<open>handle_s3_commands\<close>, \<^verbatim>\<open>handle_route53_commands\<close>) and
  exits. A handler talks to the provider through three SDK clients, prints outcome lines
  and, in one place, reads a line from the terminal. The embedding makes these effects
  explicit: a handler returns the sequence of events it caused, in order, together with
  the way it ended (a normal return, or the exception that left it).
\<close>

subsection \<open>Command arguments\<close>

text \<open>
  The namespace built by the argument parser. \<^verbatim>\<open>resource_type\<close> and \<^verbatim>\<open>action\<close> are the
  destinations of the sub-command selectors and are \<^verbatim>\<open>None\<close> when no sub-command is given;
  \<^verbatim>\<open>public\<close> is a \<^verbatim>\<open>store_true\<close> flag. The source's \<^verbatim>\<open>file\<close> and \<^verbatim>\<open>record\<close> attributes are
  named \<open>file_arg\<close> and \<open>record_arg\<close> here.
\<close>

record args =
  resource_type :: "string option"
  action :: "string option"
  instance_type :: string
  ami :: string
  instance_id :: string
  bucket_name :: string
  public :: bool
  file_arg :: string
  zone_name :: string
  zone_id :: string
  record_arg :: string

subsection \<open>Provider records, calls and events\<close>

text \<open>
  An instance as the handlers read it out of a response: \<^verbatim>\<open>i['InstanceId']\<close> and
  \<^verbatim>\<open>i['State']['Name']\<close>. A reservation is the list \<^verbatim>\<open>r['Instances']\<close>.
\<close>

record ec2_instance =
  InstanceId :: string
  State_Name :: string

type_synonym reservation = "ec2_instance list"

text \<open>
  The calls made on the three clients, with the arguments the source passes:
  \<^item> \<open>DescribeInstances Filters\<close>, a filter being a name and its values;
  \<^item> \<open>RunInstances ImageId InstanceType MinCount MaxCount TagSpecifications\<close>, a tag
    specification being a resource type and its key/value tags;
  \<^item> \<open>StartInstances InstanceIds\<close>, \<open>StopInstances InstanceIds\<close>;
  \<^item> \<open>CreateBucket Bucket LocationConstraint\<close>, \<open>PutBucketAcl Bucket ACL\<close>, \<open>ListBuckets\<close>;
  \<^item> \<open>UploadFileobj data Bucket Key\<close>, the data being the bytes of the opened file;
  \<^item> \<open>CreateHostedZone Name CallerReference\<close>.
\<close>

datatype call =
    DescribeInstances "(string \<times> string list) list"
  | RunInstances string string nat nat "(string \<times> (string \<times> string) list) list"
  | StartInstances "string list"
  | StopInstances "string list"
  | CreateBucket string string
  | PutBucketAcl string string
  | ListBuckets
  | UploadFileobj string string string
  | CreateHostedZone string string

datatype event =
    Remote call
  | Prompt string
  | Print string
  | PrintHelp

text \<open>
  The exceptions that can leave a handler. None is raised or caught by the source itself;
  they come from the calls it makes: a client call that fails, \<^verbatim>\<open>open\<close> on a file that
  cannot be read, \<^verbatim>\<open>input\<close> at end of input, the read of \<^verbatim>\<open>ami_id\<close> when neither branch
  bound it, and \<^verbatim>\<open>[0]\<close> on an empty list.
\<close>

datatype error =
    RemoteAPIFailure string
  | OSError string
  | EOFError
  | UnboundLocalError
  | IndexError

subsection \<open>The environment of one invocation\<close>

text \<open>
  What the process meets outside itself: the provider's answer to each call (the value a
  call returns, or its failure), the line the terminal gives to \<^verbatim>\<open>input\<close>, the content of
  local files, and the built-in \<^verbatim>\<open>hash\<close> on strings, which belongs to the process (Python
  salts it when the interpreter starts). A handler makes each call at most once, so an
  answer per call and argument describes every provider, stateful or not.
\<close>

record env =
  describe_instances :: "(string \<times> string list) list \<Rightarrow> error + reservation list"
  run_instances ::
    "string \<Rightarrow> string \<Rightarrow> nat \<Rightarrow> nat \<Rightarrow> (string \<times> (string \<times> string) list) list
      \<Rightarrow> error + ec2_instance list"
  start_instances :: "string list \<Rightarrow> error + unit"
  stop_instances :: "string list \<Rightarrow> error + unit"
  create_bucket :: "string \<Rightarrow> string \<Rightarrow> error + unit"
  put_bucket_acl :: "string \<Rightarrow> string \<Rightarrow> error + unit"
  list_buckets :: "error + string list"
  upload_fileobj :: "string \<Rightarrow> string \<Rightarrow> string \<Rightarrow> error + unit"
  create_hosted_zone :: "string \<Rightarrow> string \<Rightarrow> error + string"
  input_line :: "string \<Rightarrow> error + string"
  open_rb :: "string \<Rightarrow> error + string"
  py_hash :: "string \<Rightarrow> int"

subsection \<open>Sequencing effects\<close>

type_synonym 'a run = "event list \<times> (error + 'a)"

text \<open>
  \<open>seq m f\<close> runs \<open>m\<close> and then \<open>f\<close> on its value; an exception in \<open>m\<close> ends the run
  with the events caused so far.
\<close>

definition seq :: "'a run \<Rightarrow> ('a \<Rightarrow> 'b run) \<Rightarrow> 'b run" where
  "seq m f =
     (case m of
        (tr, Inl e) \<Rightarrow> (tr, Inl e)
      | (tr, Inr x) \<Rightarrow> (case f x of (tr', r) \<Rightarrow> (tr @ tr', r)))"

definition remote :: "call \<Rightarrow> error + 'a \<Rightarrow> 'a run" where
  "remote c answer = ([Remote c], answer)"

definition py_print :: "string \<Rightarrow> unit run" where
  "py_print s = ([Print s], Inr ())"

definition py_input :: "env \<Rightarrow> string \<Rightarrow> string run" where
  "py_input env prompt = ([Prompt prompt], input_line env prompt)"

definition finished :: "unit run" where
  "finished = ([], Inr ())"

fun remote_calls :: "event list \<Rightarrow> call list" where
  "remote_calls [] = []"
| "remote_calls (Remote c # es) = c # remote_calls es"
| "remote_calls (e # es) = remote_calls es"

text \<open>The calls that change something at the provider; the two list calls only read.\<close>

fun is_mutating :: "call \<Rightarrow> bool" where
  "is_mutating (DescribeInstances fs) = False"
| "is_mutating ListBuckets = False"
| "is_mutating c = True"

fun is_start_or_stop :: "call \<Rightarrow> bool" where
  "is_start_or_stop (StartInstances ids) = True"
| "is_start_or_stop (StopInstances ids) = True"
| "is_start_or_stop c = False"

fun is_upload :: "call \<Rightarrow> bool" where
  "is_upload (UploadFileobj d b k) = True"
| "is_upload c = False"

subsection \<open>Strings\<close>

text \<open>
  \<^verbatim>\<open>str.lower\<close>, on the letters A to Z. The source compares the lowered answer with
  \<^verbatim>\<open>'yes'\<close> only, and no character outside A to Z lowers to one of y, e, s, so the
  comparison is the source's.
\<close>

definition lower_char :: "char \<Rightarrow> char" where
  "lower_char c =
     (case map_of (zip ''ABCDEFGHIJKLMNOPQRSTUVWXYZ'' ''abcdefghijklmnopqrstuvwxyz'') c of
        Some l \<Rightarrow> l
      | None \<Rightarrow> c)"

definition py_lower :: "string \<Rightarrow> string" where
  "py_lower s = map lower_char s"

text \<open>\<^verbatim>\<open>str\<close> of an integer: its decimal digits, with a sign when negative.\<close>

fun digits :: "nat \<Rightarrow> string" where
  "digits n =
     (if n < 10 then [''0123456789'' ! n]
      else digits (n div 10) @ [''0123456789'' ! (n mod 10)])"

definition py_str :: "int \<Rightarrow> string" where
  "py_str i = (if i < 0 then CHR ''-'' # digits (nat (- i)) else digits (nat i))"

subsection \<open>\<^verbatim>\<open>handle_ec2_commands\<close>\<close>

text \<open>The filter of both \<^verbatim>\<open>describe_instances\<close> calls and the tags given to a new instance.\<close>

definition owned_filter :: "(string \<times> string list) list" where
  "owned_filter = [(''tag:CreatedByCLI'', [''true''])]"

definition ownership_tags :: "(string \<times> (string \<times> string) list) list" where
  "ownership_tags = [(''instance'', [(''CreatedByCLI'', ''true'')])]"

text \<open>
  The \<^verbatim>\<open>if\<close>/\<^verbatim>\<open>elif\<close> that binds \<^verbatim>\<open>ami_id\<close>; \<open>None\<close> when neither branch is taken and the
  name stays unbound.
\<close>

definition image_id :: "string \<Rightarrow> string option" where
  "image_id a =
     (if a = ''ubuntu'' then Some ''ami-12345678''
      else if a = ''amazon-linux'' then Some ''ami-87654321''
      else None)"

definition running_instances :: "reservation list \<Rightarrow> ec2_instance list" where
  "running_instances rs = [i. r \<leftarrow> rs, i \<leftarrow> r, State_Name i = ''running'']"

definition instance_line :: "ec2_instance \<Rightarrow> string" where
  "instance_line i = ''Instance ID: '' @ InstanceId i @ '', State: '' @ State_Name i"

definition handle_ec2_commands :: "env \<Rightarrow> args \<Rightarrow> unit run" where
  "handle_ec2_commands env args =
     (if action args = Some ''create'' then
        seq (remote (DescribeInstances owned_filter) (describe_instances env owned_filter))
          (\<lambda>instances.
            if 2 \<le> length (running_instances instances) then
              py_print ''Error: Cannot create more than 2 running instances.''
            else
              seq (case image_id (ami args) of
                     None \<Rightarrow> ([], Inl UnboundLocalError)
                   | Some ami_id \<Rightarrow> ([], Inr ami_id))
                (\<lambda>ami_id.
                  seq (remote
                        (RunInstances ami_id (instance_type args) 1 1 ownership_tags)
                        (run_instances env ami_id (instance_type args) 1 1 ownership_tags))
                    (\<lambda>created.
                      case created of
                        [] \<Rightarrow> ([], Inl IndexError)
                      | i # _ \<Rightarrow> py_print (''Created instance '' @ InstanceId i))))
      else if action args = Some ''manage'' then
        (if action args = Some ''start'' then
           seq (remote (StartInstances [instance_id args])
                  (start_instances env [instance_id args]))
             (\<lambda>_. py_print (''Started instance '' @ instance_id args))
         else if action args = Some ''stop'' then
           seq (remote (StopInstances [instance_id args])
                  (stop_instances env [instance_id args]))
             (\<lambda>_. py_print (''Stopped instance '' @ instance_id args))
         else finished)
      else if action args = Some ''list'' then
        seq (remote (DescribeInstances owned_filter) (describe_instances env owned_filter))
          (\<lambda>instances. (map (\<lambda>i. Print (instance_line i)) (concat instances), Inr ()))
      else finished)"

subsection \<open>\<^verbatim>\<open>handle_s3_commands\<close>\<close>

definition confirm_prompt :: string where
  "confirm_prompt = ''Are you sure you want to create a public bucket? (yes/no): ''"

text \<open>
  The part of the \<^verbatim>\<open>create\<close> branch after the confirmation: it is reached when no public
  access is asked for, or when the answer was yes; a declined confirmation returns before
  it.
\<close>

definition s3_create_bucket :: "env \<Rightarrow> args \<Rightarrow> unit run" where
  "s3_create_bucket env args =
     seq (remote (CreateBucket (bucket_name args) ''us-west-2'')
            (create_bucket env (bucket_name args) ''us-west-2''))
       (\<lambda>_.
         seq (if public args then
                remote (PutBucketAcl (bucket_name args) ''public-read'')
                  (put_bucket_acl env (bucket_name args) ''public-read'')
              else finished)
           (\<lambda>_. py_print (''Created bucket '' @ bucket_name args)))"

definition handle_s3_commands :: "env \<Rightarrow> args \<Rightarrow> unit run" where
  "handle_s3_commands env args =
     (if action args = Some ''create'' then
        (if public args then
           seq (py_input env confirm_prompt)
             (\<lambda>confirm.
               if py_lower confirm \<noteq> ''yes'' then py_print ''Bucket creation cancelled.''
               else s3_create_bucket env args)
         else s3_create_bucket env args)
      else if action args = Some ''upload'' then
        seq (remote ListBuckets (list_buckets env))
          (\<lambda>buckets.
            if bucket_name args \<notin> set buckets then
              py_print (''Bucket '' @ bucket_name args
                @ '' does not exist or was not created via this CLI.'')
            else
              seq ([], open_rb env (file_arg args))
                (\<lambda>file_data.
                  seq (remote (UploadFileobj file_data (bucket_name args) (file_arg args))
                         (upload_fileobj env file_data (bucket_name args) (file_arg args)))
                    (\<lambda>_. py_print (''Uploaded '' @ file_arg args @ '' to bucket ''
                            @ bucket_name args))))
      else if action args = Some ''list'' then
        seq (remote ListBuckets (list_buckets env))
          (\<lambda>buckets. (map (\<lambda>b. Print (''Bucket Name: '' @ b)) buckets, Inr ()))
      else finished)"

subsection \<open>\<^verbatim>\<open>handle_route53_commands\<close>\<close>

definition handle_route53_commands :: "env \<Rightarrow> args \<Rightarrow> unit run" where
  "handle_route53_commands env args =
     (if action args = Some ''create'' then
        seq (remote
              (CreateHostedZone (zone_name args) (py_str (py_hash env (zone_name args))))
              (create_hosted_zone env (zone_name args)
                (py_str (py_hash env (zone_name args)))))
          (\<lambda>zone. py_print (''Created DNS zone '' @ zone_name args @ '', ID: '' @ zone))
      else if action args = Some ''manage'' then finished
      else finished)"

subsection \<open>The dispatch at the end of \<^verbatim>\<open>main\<close>\<close>

definition dispatch :: "env \<Rightarrow> args \<Rightarrow> unit run" where
  "dispatch env args =
     (if resource_type args = Some ''ec2'' then handle_ec2_commands env args
      else if resource_type args = Some ''s3'' then handle_s3_commands env args
      else if resource_type args = Some ''route53'' then handle_route53_commands env args
      else ([PrintHelp], Inr ()))"

subsection \<open>Reading decimal digits back\<close>

text \<open>The inverse of \<open>digits\<close>, used to show that \<open>py_str\<close> loses nothing.\<close>

definition digit_value :: "char \<Rightarrow> nat" where
  "digit_value c =
     (case map_of (zip ''0123456789'' [0, 1, 2, 3, 4, 5, 6, 7, 8, 9]) c of
        Some d \<Rightarrow> d
      | None \<Rightarrow> 0)"

definition undigits :: "string \<Rightarrow> nat" where
  "undigits s = foldl (\<lambda>acc c. 10 * acc + digit_value c) 0 s"

subsection \<open>Concrete commands and providers\<close>

text \<open>
  A namespace with nothing set, the commands built from it, and a provider that answers
  every call with success. The other providers differ from it in one answer each.
\<close>

definition blank_args :: args where
  "blank_args =
     \<lparr>resource_type = None, action = None, instance_type = [], ami = [],
      instance_id = [], bucket_name = [], public = False, file_arg = [],
      zone_name = [], zone_id = [], record_arg = []\<rparr>"

definition ec2_create_args :: args where
  "ec2_create_args =
     blank_args\<lparr>resource_type := Some ''ec2'', action := Some ''create'',
       instance_type := ''t3.nano'', ami := ''ubuntu''\<rparr>"

definition public_bucket_args :: args where
  "public_bucket_args =
     blank_args\<lparr>resource_type := Some ''s3'', action := Some ''create'',
       bucket_name := ''logs'', public := True\<rparr>"

definition upload_args :: args where
  "upload_args =
     blank_args\<lparr>resource_type := Some ''s3'', action := Some ''upload'',
       bucket_name := ''logs'', file_arg := ''report.txt''\<rparr>"

definition two_running :: "reservation list" where
  "two_running =
     [[\<lparr>InstanceId = ''i-0001'', State_Name = ''running''\<rparr>],
      [\<lparr>InstanceId = ''i-0002'', State_Name = ''stopped''\<rparr>,
       \<lparr>InstanceId = ''i-0003'', State_Name = ''running''\<rparr>]]"

definition one_running :: "reservation list" where
  "one_running =
     [[\<lparr>InstanceId = ''i-0001'', State_Name = ''running''\<rparr>,
       \<lparr>InstanceId = ''i-0002'', State_Name = ''stopped''\<rparr>]]"

definition fake_env :: env where
  "fake_env =
     \<lparr>describe_instances = (\<lambda>fs. Inr []),
      run_instances =
        (\<lambda>image type mn mx tags.
           Inr [\<lparr>InstanceId = ''i-0004'', State_Name = ''pending''\<rparr>]),
      start_instances = (\<lambda>ids. Inr ()),
      stop_instances = (\<lambda>ids. Inr ()),
      create_bucket = (\<lambda>b region. Inr ()),
      put_bucket_acl = (\<lambda>b acl. Inr ()),
      list_buckets = Inr [''logs'', ''backups''],
      upload_fileobj = (\<lambda>d b k. Inr ()),
      create_hosted_zone = (\<lambda>n r. Inr ''/hostedzone/Z1''),
      input_line = (\<lambda>p. Inr ''yes''),
      open_rb = (\<lambda>p. Inr ''bytes''),
      py_hash = (\<lambda>s. 42)\<rparr>"

definition env_with_instances :: "reservation list \<Rightarrow> env" where
  "env_with_instances rs = fake_env\<lparr>describe_instances := (\<lambda>fs. Inr rs)\<rparr>"

definition env_answering :: "string \<Rightarrow> env" where
  "env_answering answer = fake_env\<lparr>input_line := (\<lambda>p. Inr answer)\<rparr>"

text \<open>The bucket name is taken: \<^verbatim>\<open>create_bucket\<close> fails.\<close>

definition env_bucket_taken :: env where
  "env_bucket_taken =
     fake_env\<lparr>create_bucket := (\<lambda>b region. Inl (RemoteAPIFailure ''BucketAlreadyExists''))\<rparr>"

text \<open>The local file is not there: \<^verbatim>\<open>open\<close> fails.\<close>

definition env_file_missing :: env where
  "env_file_missing =
     fake_env\<lparr>open_rb := (\<lambda>p. Inl (OSError ''No such file or directory''))\<rparr>"

text \<open>One tagged instance runs, and the provider refuses the launch.\<close>

definition env_launch_refused :: env where
  "env_launch_refused =
     (env_with_instances one_running)
       \<lparr>run_instances :=
          (\<lambda>image type mn mx tags. Inl (RemoteAPIFailure ''InvalidAMIID.NotFound''))\<rparr>"

text \<open>A second process, whose string hash is salted differently.\<close>

definition env_other_process :: env where
  "env_other_process = fake_env\<lparr>py_hash := (\<lambda>s. - 7)\<rparr>"

section \<open>Properties\<close>

subsection \<open>Auxiliary facts\<close>

declare digits.simps [simp del]

lemmas run_defs = seq_def remote_def py_print_def py_input_def finished_def

lemma remote_calls_append: "remote_calls (xs @ ys) = remote_calls xs @ remote_calls ys"
  by (induction xs rule: remote_calls.induct) simp_all

lemma remote_calls_prints: "remote_calls (map (\<lambda>x. Print (f x)) xs) = []"
  by (induction xs) simp_all

lemma dispatch_ec2:
  "resource_type args = Some ''ec2'' \<Longrightarrow> dispatch env args = handle_ec2_commands env args"
  by (simp add: dispatch_def)

lemma dispatch_s3:
  "resource_type args = Some ''s3'' \<Longrightarrow> dispatch env args = handle_s3_commands env args"
  by (simp add: dispatch_def)

lemma dispatch_route53:
  "resource_type args = Some ''route53'' \<Longrightarrow>
     dispatch env args = handle_route53_commands env args"
  by (simp add: dispatch_def)

text \<open>The answers that pass the confirmation are the eight spellings of yes.\<close>

lemma lower_char_yes:
  "(lower_char c = CHR ''y'') = (c = CHR ''y'' \<or> c = CHR ''Y'')"
  "(lower_char c = CHR ''e'') = (c = CHR ''e'' \<or> c = CHR ''E'')"
  "(lower_char c = CHR ''s'') = (c = CHR ''s'' \<or> c = CHR ''S'')"
  by (simp_all add: lower_char_def)

lemma map_eq_three:
  "(map f s = [x, y, z]) = (\<exists>a b c. s = [a, b, c] \<and> f a = x \<and> f b = y \<and> f c = z)"
  by (auto simp add: map_eq_Cons_conv)

lemma py_lower_yes:
  "(py_lower s = ''yes'') =
     (\<exists>a b c. s = [a, b, c] \<and> (a = CHR ''y'' \<or> a = CHR ''Y'')
        \<and> (b = CHR ''e'' \<or> b = CHR ''E'') \<and> (c = CHR ''s'' \<or> c = CHR ''S''))"
  by (simp only: py_lower_def map_eq_three lower_char_yes)

text \<open>\<open>py_str\<close> is injective: two references are equal only when the hashes are.\<close>

lemma digit_cases:
  assumes "n < (10::nat)"
  shows "n \<in> {0, 1, 2, 3, 4, 5, 6, 7, 8, 9}"
  using assms by auto

lemma digit_value_nth:
  assumes "n < 10"
  shows "digit_value (''0123456789'' ! n) = n \<and> ''0123456789'' ! n \<noteq> CHR ''-''"
  using digit_cases [OF assms] by (auto simp add: digit_value_def)

lemma undigits_snoc: "undigits (s @ [c]) = 10 * undigits s + digit_value c"
  by (simp add: undigits_def)

lemma undigits_digits: "undigits (digits n) = n"
proof (induction n rule: digits.induct)
  case (1 n)
  show ?case
  proof (cases "n < 10")
    case True
    then have "digits n = [''0123456789'' ! n]"
      by (simp add: digits.simps)
    then show ?thesis
      using digit_value_nth [OF True] by (simp add: undigits_def)
  next
    case False
    then have "digits n = digits (n div 10) @ [''0123456789'' ! (n mod 10)]"
      by (simp add: digits.simps [of n])
    then have "undigits (digits n) = 10 * undigits (digits (n div 10)) + n mod 10"
      using digit_value_nth [of "n mod 10"] by (simp add: undigits_snoc)
    then show ?thesis
      using 1 False by simp
  qed
qed

lemma digits_inject: "(digits a = digits b) = (a = b)"
  by (metis undigits_digits)

lemma digits_no_sign: "digits n \<noteq> CHR ''-'' # s"
proof (induction n arbitrary: s rule: digits.induct)
  case (1 n)
  show ?case
  proof (cases "n < 10")
    case True
    then have "digits n = [''0123456789'' ! n]"
      by (simp add: digits.simps)
    then show ?thesis
      using digit_value_nth [OF True] by simp
  next
    case False
    then have eq: "digits n = digits (n div 10) @ [''0123456789'' ! (n mod 10)]"
      by (simp add: digits.simps [of n])
    show ?thesis
    proof
      assume "digits n = CHR ''-'' # s"
      with eq have "digits (n div 10) @ [''0123456789'' ! (n mod 10)] = CHR ''-'' # s"
        by simp
      then show False
        using 1 [OF False] digit_value_nth [of "n mod 10"]
        by (cases "digits (n div 10)") auto
    qed
  qed
qed

lemma py_str_inject: "(py_str a = py_str b) = (a = b)"
  using digits_no_sign [of "nat a"] digits_no_sign [of "nat b"]
  by (auto simp add: py_str_def digits_inject dest: sym)

text \<open>The one remote call of zone creation, with the reference it carries.\<close>

lemma route53_create_reference:
  "remote_calls (fst (handle_route53_commands env (args\<lparr>action := Some ''create''\<rparr>))) =
     [CreateHostedZone (zone_name args) (py_str (py_hash env (zone_name args)))]"
  by (simp add: handle_route53_commands_def run_defs split: sum.splits)

subsection \<open>Compute instances\<close>

text \<open>
  Claim C1. A create command whose fresh, tag-filtered instance listing holds at least two
  instances in state running prints the quota line and returns normally; the listing is
  the only remote call, so no mutating call is made and \<^verbatim>\<open>run_instances\<close> is not invoked.
\<close>

theorem ec2_create_quota_exceeded:
  assumes "action args = Some ''create''"
    and "describe_instances env owned_filter = Inr rs"
    and "2 \<le> length (running_instances rs)"
  shows "handle_ec2_commands env args =
           ([Remote (DescribeInstances owned_filter),
             Print ''Error: Cannot create more than 2 running instances.''], Inr ())
         \<and> filter is_mutating (remote_calls (fst (handle_ec2_commands env args))) = []"
  using assms by (simp add: handle_ec2_commands_def run_defs)

text \<open>Two of the three tagged instances run.\<close>

theorem ec2_create_quota_exceeded_witness:
  "action ec2_create_args = Some ''create''
   \<and> describe_instances (env_with_instances two_running) owned_filter = Inr two_running
   \<and> 2 \<le> length (running_instances two_running)
   \<and> handle_ec2_commands (env_with_instances two_running) ec2_create_args =
       ([Remote (DescribeInstances owned_filter),
         Print ''Error: Cannot create more than 2 running instances.''], Inr ())
   \<and> filter is_mutating
         (remote_calls (fst (handle_ec2_commands (env_with_instances two_running)
            ec2_create_args))) = []"
proof -
  have a: "action ec2_create_args = Some ''create''"
    by (simp add: ec2_create_args_def blank_args_def)
  have d: "describe_instances (env_with_instances two_running) owned_filter = Inr two_running"
    by (simp add: env_with_instances_def)
  have n: "2 \<le> length (running_instances two_running)"
    by (simp add: running_instances_def two_running_def)
  from ec2_create_quota_exceeded [OF a d n] a d n show ?thesis
    by simp
qed

text \<open>
  Claim C7, as the code has it. A create command for one of the two image families,
  whose tag-filtered listing holds fewer than two running instances, makes exactly two
  remote calls: the listing, then \<^verbatim>\<open>run_instances\<close> with the image of the family, the
  requested type, one instance, and the tag CreatedByCLI = true. When that call returns
  instances, the identifier of the first is printed and the command returns normally.
\<close>

theorem ec2_create_below_quota:
  assumes "action args = Some ''create''"
    and "describe_instances env owned_filter = Inr rs"
    and "length (running_instances rs) < 2"
    and "ami args = ''ubuntu'' \<or> ami args = ''amazon-linux''"
  shows "\<exists>ami_id. image_id (ami args) = Some ami_id
           \<and> remote_calls (fst (handle_ec2_commands env args)) =
               [DescribeInstances owned_filter,
                RunInstances ami_id (instance_type args) 1 1
                  [(''instance'', [(''CreatedByCLI'', ''true'')])]]
           \<and> (\<forall>i more.
                 run_instances env ami_id (instance_type args) 1 1 ownership_tags
                   = Inr (i # more) \<longrightarrow>
                 handle_ec2_commands env args =
                   ([Remote (DescribeInstances owned_filter),
                     Remote (RunInstances ami_id (instance_type args) 1 1 ownership_tags),
                     Print (''Created instance '' @ InstanceId i)], Inr ()))"
  using assms
  by (auto simp add: handle_ec2_commands_def image_id_def ownership_tags_def run_defs
      split: sum.splits list.splits)

text \<open>One tagged instance runs and the launch succeeds: the new identifier is printed.\<close>

theorem ec2_create_below_quota_witness:
  "action ec2_create_args = Some ''create''
   \<and> describe_instances (env_with_instances one_running) owned_filter = Inr one_running
   \<and> length (running_instances one_running) = 1
   \<and> ami ec2_create_args = ''ubuntu''
   \<and> handle_ec2_commands (env_with_instances one_running) ec2_create_args =
       ([Remote (DescribeInstances owned_filter),
         Remote (RunInstances ''ami-12345678'' ''t3.nano'' 1 1
           [(''instance'', [(''CreatedByCLI'', ''true'')])]),
         Print ''Created instance i-0004''], Inr ())"
proof -
  have a: "action ec2_create_args = Some ''create''"
    by (simp add: ec2_create_args_def blank_args_def)
  have d: "describe_instances (env_with_instances one_running) owned_filter = Inr one_running"
    by (simp add: env_with_instances_def)
  have n: "length (running_instances one_running) = 1"
    by (simp add: running_instances_def one_running_def)
  have n2: "length (running_instances one_running) < 2"
    using n by simp
  have f: "ami ec2_create_args = ''ubuntu''"
    by (simp add: ec2_create_args_def blank_args_def)
  have f2: "ami ec2_create_args = ''ubuntu'' \<or> ami ec2_create_args = ''amazon-linux''"
    using f by simp
  have r: "run_instances (env_with_instances one_running) ''ami-12345678'' ''t3.nano'' 1 1
             ownership_tags = Inr [\<lparr>InstanceId = ''i-0004'', State_Name = ''pending''\<rparr>]"
    by (simp add: env_with_instances_def fake_env_def)
  have t: "instance_type ec2_create_args = ''t3.nano''"
    by (simp add: ec2_create_args_def blank_args_def)
  from ec2_create_below_quota [OF a d n2 f2] obtain ami_id where
    i: "image_id (ami ec2_create_args) = Some ami_id" and
    h: "\<forall>i more.
          run_instances (env_with_instances one_running) ami_id
            (instance_type ec2_create_args) 1 1 ownership_tags = Inr (i # more) \<longrightarrow>
          handle_ec2_commands (env_with_instances one_running) ec2_create_args =
            ([Remote (DescribeInstances owned_filter),
              Remote (RunInstances ami_id (instance_type ec2_create_args) 1 1 ownership_tags),
              Print (''Created instance '' @ InstanceId i)], Inr ())"
    by blast
  from i f have "ami_id = ''ami-12345678''"
    by (simp add: image_id_def)
  with h r t have "handle_ec2_commands (env_with_instances one_running) ec2_create_args =
      ([Remote (DescribeInstances owned_filter),
        Remote (RunInstances ''ami-12345678'' ''t3.nano'' 1 1 ownership_tags),
        Print ''Created instance i-0004''], Inr ())"
    by simp
  with a d n f show ?thesis
    by (simp add: ownership_tags_def)
qed

text \<open>
  The specification promises the report for every such command. When the provider
  refuses the launch, the call is made and nothing is reported: the failure leaves the
  handler.
\<close>

theorem ec2_create_below_quota_counterexample:
  "action ec2_create_args = Some ''create''
   \<and> describe_instances env_launch_refused owned_filter = Inr one_running
   \<and> length (running_instances one_running) = 1
   \<and> handle_ec2_commands env_launch_refused ec2_create_args =
       ([Remote (DescribeInstances owned_filter),
         Remote (RunInstances ''ami-12345678'' ''t3.nano'' 1 1
           [(''instance'', [(''CreatedByCLI'', ''true'')])])],
        Inl (RemoteAPIFailure ''InvalidAMIID.NotFound''))"
  by (simp add: handle_ec2_commands_def image_id_def run_defs ec2_create_args_def blank_args_def
      env_launch_refused_def env_with_instances_def fake_env_def one_running_def
      running_instances_def owned_filter_def ownership_tags_def)

text \<open>
  Claim C4. The manage branch tests \<^verbatim>\<open>args.action\<close> against \<^verbatim>\<open>'manage'\<close> and then, inside,
  against \<^verbatim>\<open>'start'\<close> and \<^verbatim>\<open>'stop'\<close>; no value passes both tests. Whether the attribute
  holds the sub-command name or the value of \<^verbatim>\<open>--action\<close>, the handler does nothing, and
  for no arguments and no provider does it call \<^verbatim>\<open>start_instances\<close> or \<^verbatim>\<open>stop_instances\<close>.
\<close>

theorem ec2_manage_never_starts_or_stops:
  "handle_ec2_commands env (args\<lparr>action := Some ''manage''\<rparr>) = ([], Inr ())
   \<and> handle_ec2_commands env (args\<lparr>action := Some ''start''\<rparr>) = ([], Inr ())
   \<and> handle_ec2_commands env (args\<lparr>action := Some ''stop''\<rparr>) = ([], Inr ())
   \<and> dispatch env (args\<lparr>resource_type := Some ''ec2'', action := Some ''start''\<rparr>)
       = ([], Inr ())
   \<and> filter is_start_or_stop (remote_calls (fst (handle_ec2_commands env args))) = []"
  by (simp add: dispatch_def handle_ec2_commands_def run_defs remote_calls_append
      remote_calls_prints instance_line_def split: sum.splits list.splits option.splits)

text \<open>
  Claim C8. The image selection is a fixed table: ubuntu and amazon-linux each have one
  image identifier, no other family has any, and the identifier passed to
  \<^verbatim>\<open>run_instances\<close> for each of the two is the table's, whatever the provider and the
  other arguments are.
\<close>

theorem image_selection_fixed:
  "image_id ''ubuntu'' = Some ''ami-12345678''
   \<and> image_id ''amazon-linux'' = Some ''ami-87654321''
   \<and> (image_id a = None) = (a \<noteq> ''ubuntu'' \<and> a \<noteq> ''amazon-linux'')
   \<and> remote_calls (fst (handle_ec2_commands
         (env\<lparr>describe_instances := (\<lambda>fs. Inr [])\<rparr>)
         (args\<lparr>action := Some ''create'', ami := ''ubuntu''\<rparr>))) =
       [DescribeInstances owned_filter,
        RunInstances ''ami-12345678'' (instance_type args) 1 1 ownership_tags]
   \<and> remote_calls (fst (handle_ec2_commands
         (env\<lparr>describe_instances := (\<lambda>fs. Inr [])\<rparr>)
         (args\<lparr>action := Some ''create'', ami := ''amazon-linux''\<rparr>))) =
       [DescribeInstances owned_filter,
        RunInstances ''ami-87654321'' (instance_type args) 1 1 ownership_tags]"
  by (simp add: handle_ec2_commands_def image_id_def running_instances_def run_defs
      split: sum.splits list.splits)

subsection \<open>Storage buckets\<close>

text \<open>
  Claim C2. A create command asking for public access, answered at the prompt with
  anything whose lowered form is not yes, prints the cancellation line and returns
  normally without a single remote call: the bucket is not created at all.
\<close>

theorem s3_public_create_declined:
  assumes "action args = Some ''create''"
    and "public args"
    and "input_line env confirm_prompt = Inr answer"
    and "py_lower answer \<noteq> ''yes''"
  shows "handle_s3_commands env args =
           ([Prompt confirm_prompt, Print ''Bucket creation cancelled.''], Inr ())
         \<and> remote_calls (fst (handle_s3_commands env args)) = []"
  using assms by (simp add: handle_s3_commands_def run_defs)

text \<open>The answers no, y and the empty line all decline.\<close>

theorem s3_public_create_declined_witness:
  "action public_bucket_args = Some ''create'' \<and> public public_bucket_args
   \<and> py_lower ''no'' \<noteq> ''yes'' \<and> py_lower ''y'' \<noteq> ''yes'' \<and> py_lower [] \<noteq> ''yes''
   \<and> handle_s3_commands (env_answering ''no'') public_bucket_args =
       ([Prompt confirm_prompt, Print ''Bucket creation cancelled.''], Inr ())
   \<and> remote_calls (fst (handle_s3_commands (env_answering ''y'') public_bucket_args)) = []
   \<and> remote_calls (fst (handle_s3_commands (env_answering []) public_bucket_args)) = []"
proof -
  have a: "action public_bucket_args = Some ''create''"
    and p: "public public_bucket_args"
    by (simp_all add: public_bucket_args_def blank_args_def)
  have i: "input_line (env_answering s) confirm_prompt = Inr s" for s
    by (simp add: env_answering_def)
  have l: "py_lower ''no'' \<noteq> ''yes''" "py_lower ''y'' \<noteq> ''yes''" "py_lower [] \<noteq> ''yes''"
    by (simp_all add: py_lower_def)
  from s3_public_create_declined [OF a p i l(1)]
    s3_public_create_declined [OF a p i l(2)]
    s3_public_create_declined [OF a p i l(3)] a p l
  show ?thesis
    by simp
qed

text \<open>
  Claim C3, as the code has it. A create command asking for public access and answered
  with yes in any letter case calls \<^verbatim>\<open>create_bucket\<close> for the name in region us-west-2.
  When that call returns, \<^verbatim>\<open>put_bucket_acl\<close> with public-read follows for the same name,
  and these two are the remote calls, in this order. When \<^verbatim>\<open>create_bucket\<close> fails, it is
  the only remote call.
\<close>

theorem s3_public_create_confirmed:
  assumes "action args = Some ''create''"
    and "public args"
    and "input_line env confirm_prompt = Inr answer"
    and "py_lower answer = ''yes''"
  shows "remote_calls (fst (handle_s3_commands env args)) =
           (case create_bucket env (bucket_name args) ''us-west-2'' of
              Inr u \<Rightarrow> [CreateBucket (bucket_name args) ''us-west-2'',
                        PutBucketAcl (bucket_name args) ''public-read'']
            | Inl e \<Rightarrow> [CreateBucket (bucket_name args) ''us-west-2''])"
  using assms
  by (simp add: handle_s3_commands_def s3_create_bucket_def run_defs
      split: sum.splits prod.splits)

text \<open>The answer YES, with a provider that creates the bucket.\<close>

theorem s3_public_create_confirmed_witness:
  "action public_bucket_args = Some ''create'' \<and> public public_bucket_args
   \<and> input_line (env_answering ''YES'') confirm_prompt = Inr ''YES''
   \<and> py_lower ''YES'' = ''yes''
   \<and> remote_calls (fst (handle_s3_commands (env_answering ''YES'') public_bucket_args)) =
       [CreateBucket ''logs'' ''us-west-2'', PutBucketAcl ''logs'' ''public-read'']"
proof -
  have a: "action public_bucket_args = Some ''create''"
    and p: "public public_bucket_args"
    and b: "bucket_name public_bucket_args = ''logs''"
    by (simp_all add: public_bucket_args_def blank_args_def)
  have i: "input_line (env_answering ''YES'') confirm_prompt = Inr ''YES''"
    by (simp add: env_answering_def)
  have l: "py_lower ''YES'' = ''yes''"
    by (simp add: py_lower_def lower_char_def)
  have c: "create_bucket (env_answering ''YES'') ''logs'' ''us-west-2'' = Inr ()"
    by (simp add: env_answering_def fake_env_def)
  from s3_public_create_confirmed [OF a p i l] a p i l b c show ?thesis
    by simp
qed

text \<open>
  The specification promises two calls for every confirmed command. When the
  bucket name is taken, \<^verbatim>\<open>create_bucket\<close> fails and no second call is made.
\<close>

theorem s3_public_create_confirmed_counterexample:
  "action public_bucket_args = Some ''create'' \<and> public public_bucket_args
   \<and> input_line env_bucket_taken confirm_prompt = Inr ''yes''
   \<and> py_lower ''yes'' = ''yes''
   \<and> handle_s3_commands env_bucket_taken public_bucket_args =
       ([Prompt confirm_prompt, Remote (CreateBucket ''logs'' ''us-west-2'')],
        Inl (RemoteAPIFailure ''BucketAlreadyExists''))
   \<and> length (remote_calls (fst (handle_s3_commands env_bucket_taken public_bucket_args)))
       = 1"
  by (simp add: handle_s3_commands_def s3_create_bucket_def run_defs public_bucket_args_def
      blank_args_def env_bucket_taken_def fake_env_def confirm_prompt_def
      py_lower_def lower_char_def)

text \<open>
  Claim C5. An upload command whose bucket name is not in the bucket list just fetched
  prints the line saying so and returns normally; the listing is the only remote call, so
  nothing is uploaded.
\<close>

theorem s3_upload_bucket_absent:
  assumes "action args = Some ''upload''"
    and "list_buckets env = Inr buckets"
    and "bucket_name args \<notin> set buckets"
  shows "handle_s3_commands env args =
           ([Remote ListBuckets,
             Print (''Bucket '' @ bucket_name args
               @ '' does not exist or was not created via this CLI.'')], Inr ())
         \<and> filter is_upload (remote_calls (fst (handle_s3_commands env args))) = []"
  using assms by (simp add: handle_s3_commands_def run_defs)

text \<open>The account holds logs and backups; the upload names archive.\<close>

theorem s3_upload_bucket_absent_witness:
  "action (upload_args\<lparr>bucket_name := ''archive''\<rparr>) = Some ''upload''
   \<and> list_buckets fake_env = Inr [''logs'', ''backups'']
   \<and> bucket_name (upload_args\<lparr>bucket_name := ''archive''\<rparr>) \<notin> set [''logs'', ''backups'']
   \<and> handle_s3_commands fake_env (upload_args\<lparr>bucket_name := ''archive''\<rparr>) =
       ([Remote ListBuckets,
         Print ''Bucket archive does not exist or was not created via this CLI.''], Inr ())
   \<and> filter is_upload
         (remote_calls (fst (handle_s3_commands fake_env
            (upload_args\<lparr>bucket_name := ''archive''\<rparr>)))) = []"
proof -
  have a: "action (upload_args\<lparr>bucket_name := ''archive''\<rparr>) = Some ''upload''"
    by (simp add: upload_args_def blank_args_def)
  have l: "list_buckets fake_env = Inr [''logs'', ''backups'']"
    by (simp add: fake_env_def)
  have b: "bucket_name (upload_args\<lparr>bucket_name := ''archive''\<rparr>) \<notin> set [''logs'', ''backups'']"
    by simp
  from s3_upload_bucket_absent [OF a l b] a l b show ?thesis
    by simp
qed

text \<open>
  Claim C6, as the code has it. An upload command whose bucket name is in the bucket list
  just fetched, and whose local file can be opened, makes exactly one upload call, with
  the file's bytes, the bucket name, and the local path as the object key; the listing
  and this call are its remote calls. When the upload call returns, the success line
  naming the file and the bucket is printed and the command returns normally.
\<close>

theorem s3_upload_bucket_present:
  assumes "action args = Some ''upload''"
    and "list_buckets env = Inr buckets"
    and "bucket_name args \<in> set buckets"
    and "open_rb env (file_arg args) = Inr file_data"
  shows "remote_calls (fst (handle_s3_commands env args)) =
           [ListBuckets, UploadFileobj file_data (bucket_name args) (file_arg args)]
         \<and> filter is_upload (remote_calls (fst (handle_s3_commands env args))) =
             [UploadFileobj file_data (bucket_name args) (file_arg args)]
         \<and> (upload_fileobj env file_data (bucket_name args) (file_arg args) = Inr () \<longrightarrow>
              handle_s3_commands env args =
                ([Remote ListBuckets,
                  Remote (UploadFileobj file_data (bucket_name args) (file_arg args)),
                  Print (''Uploaded '' @ file_arg args @ '' to bucket '' @ bucket_name args)],
                 Inr ()))"
  using assms by (simp add: handle_s3_commands_def run_defs split: sum.splits)

text \<open>The file report.txt goes to the bucket logs under the key report.txt.\<close>

theorem s3_upload_bucket_present_witness:
  "action upload_args = Some ''upload''
   \<and> list_buckets fake_env = Inr [''logs'', ''backups'']
   \<and> bucket_name upload_args \<in> set [''logs'', ''backups'']
   \<and> open_rb fake_env (file_arg upload_args) = Inr ''bytes''
   \<and> remote_calls (fst (handle_s3_commands fake_env upload_args)) =
       [ListBuckets, UploadFileobj ''bytes'' ''logs'' ''report.txt'']
   \<and> handle_s3_commands fake_env upload_args =
       ([Remote ListBuckets, Remote (UploadFileobj ''bytes'' ''logs'' ''report.txt''),
         Print ''Uploaded report.txt to bucket logs''], Inr ())"
proof -
  have a: "action upload_args = Some ''upload''"
    and n: "bucket_name upload_args = ''logs''"
    and f: "file_arg upload_args = ''report.txt''"
    by (simp_all add: upload_args_def blank_args_def)
  have l: "list_buckets fake_env = Inr [''logs'', ''backups'']"
    by (simp add: fake_env_def)
  have b: "bucket_name upload_args \<in> set [''logs'', ''backups'']"
    using n by simp
  have opn: "open_rb fake_env (file_arg upload_args) = Inr ''bytes''"
    by (simp add: fake_env_def)
  have u: "upload_fileobj fake_env ''bytes'' (bucket_name upload_args) (file_arg upload_args)
             = Inr ()"
    by (simp add: fake_env_def)
  from s3_upload_bucket_present [OF a l b opn] u a l b opn n f show ?thesis
    by simp
qed

text \<open>
  When the upload call fails, the call has been made and the failure leaves the handler:
  no success line is printed.
\<close>

lemma s3_upload_call_fails:
  assumes "action args = Some ''upload''"
    and "list_buckets env = Inr buckets"
    and "bucket_name args \<in> set buckets"
    and "open_rb env (file_arg args) = Inr file_data"
    and "upload_fileobj env file_data (bucket_name args) (file_arg args) = Inl e"
  shows "handle_s3_commands env args =
           ([Remote ListBuckets,
             Remote (UploadFileobj file_data (bucket_name args) (file_arg args))], Inl e)"
  using assms by (simp add: handle_s3_commands_def run_defs)

text \<open>
  The specification promises one upload call for every command whose bucket is listed.
  When the local file is not there, \<^verbatim>\<open>open\<close> fails after the listing: no upload call
  is made and no line is printed.
\<close>

theorem s3_upload_bucket_present_counterexample:
  "action upload_args = Some ''upload''
   \<and> list_buckets env_file_missing = Inr [''logs'', ''backups'']
   \<and> bucket_name upload_args \<in> set [''logs'', ''backups'']
   \<and> handle_s3_commands env_file_missing upload_args =
       ([Remote ListBuckets], Inl (OSError ''No such file or directory''))
   \<and> filter is_upload (remote_calls (fst (handle_s3_commands env_file_missing upload_args)))
       = []"
  by (simp add: handle_s3_commands_def run_defs upload_args_def blank_args_def
      env_file_missing_def fake_env_def)

subsection \<open>DNS zones\<close>

text \<open>
  Claim C9. Zone creation passes \<^verbatim>\<open>str(hash(zone_name))\<close> as the caller reference. Two
  invocations for the same zone name therefore supply the same reference exactly when
  their processes hash the name alike; the reference is a function of the name only
  within one process. With the two salts of \<open>fake_env\<close> and \<open>env_other_process\<close> the
  same command sends the references 42 and -7.
\<close>

theorem route53_reference_follows_process_hash:
  "(remote_calls (fst (handle_route53_commands env1 (args\<lparr>action := Some ''create''\<rparr>))) =
    remote_calls (fst (handle_route53_commands env2 (args\<lparr>action := Some ''create''\<rparr>))))
   = (py_hash env1 (zone_name args) = py_hash env2 (zone_name args))
   \<and> remote_calls (fst (handle_route53_commands fake_env
        (blank_args\<lparr>action := Some ''create'', zone_name := ''example.com''\<rparr>))) =
       [CreateHostedZone ''example.com'' ''42'']
   \<and> remote_calls (fst (handle_route53_commands env_other_process
        (blank_args\<lparr>action := Some ''create'', zone_name := ''example.com''\<rparr>))) =
       [CreateHostedZone ''example.com'' ''-7'']"
proof -
  have s: "py_str 42 = ''42''" "py_str (- 7) = ''-7''"
    by (simp_all add: py_str_def digits.simps)
  have h: "py_hash fake_env ''example.com'' = 42"
    "py_hash env_other_process ''example.com'' = - 7"
    by (simp_all add: env_other_process_def fake_env_def)
  have c: "remote_calls (fst (handle_route53_commands env
             (blank_args\<lparr>action := Some ''create'', zone_name := ''example.com''\<rparr>))) =
           [CreateHostedZone ''example.com'' (py_str (py_hash env ''example.com''))]" for env
    using route53_create_reference [of env "blank_args\<lparr>zone_name := ''example.com''\<rparr>"]
    by (simp add: blank_args_def)
  show ?thesis
    by (simp only: c h s route53_create_reference py_str_inject simp_thms list.inject
        call.inject)
qed

text \<open>
  Claim C10. The manage action of the DNS handler is an empty branch: for every provider
  and all argument values it causes no event, hence no remote call, and returns
  normally; the same holds when it is reached through the dispatch of \<^verbatim>\<open>main\<close>.
\<close>

theorem route53_manage_noop:
  "handle_route53_commands env (args\<lparr>action := Some ''manage''\<rparr>) = ([], Inr ())
   \<and> dispatch env (args\<lparr>resource_type := Some ''route53'', action := Some ''manage''\<rparr>)
       = ([], Inr ())"
  by (simp add: dispatch_def handle_route53_commands_def run_defs)

end
